theory Spec2Isabelle
  imports Main "HOL-Library.Sublist"
begin

section \<open>Python strings\<close>

text \<open>
  A Python \<open>str\<close> is modelled as a \<open>string\<close>, each character read as a code point
  below 256. The helpers below are the library operations the scraper calls on strings.
\<close>

text \<open>\<open>str.isspace\<close> on one character: the white space of \<open>str.strip\<close>, of the regular
  expression class \<open>\s\<close> and of \<open>int\<close>.\<close>

definition is_space :: "char \<Rightarrow> bool" where
  "is_space c \<longleftrightarrow> c \<in> set [CHR 0x09, CHR 0x0A, CHR 0x0B, CHR 0x0C, CHR 0x0D,
     CHR 0x1C, CHR 0x1D, CHR 0x1E, CHR 0x1F, CHR 0x20, CHR 0x85, CHR 0xA0]"

text \<open>\<open>s.strip()\<close>\<close>

definition strip :: "string \<Rightarrow> string" where
  "strip s = rev (dropWhile is_space (rev (dropWhile is_space s)))"

text \<open>\<open>s.startswith(p)\<close>\<close>

definition startswith :: "string \<Rightarrow> string \<Rightarrow> bool" where
  "startswith s p = prefix p s"

text \<open>\<open>s.lower()\<close>: the letters A-Z and the upper-case letters of Latin-1 have their
  lower-case form 32 code points higher.\<close>

definition lower_char :: "char \<Rightarrow> char" where
  "lower_char c =
     (let n = (of_char c :: nat)
      in if (65 \<le> n \<and> n \<le> 90) \<or> (192 \<le> n \<and> n \<le> 214) \<or> (216 \<le> n \<and> n \<le> 222)
         then char_of (n + 32) else c)"

definition lower :: "string \<Rightarrow> string" where
  "lower s = map lower_char s"

text \<open>\<open>s.replace(a, b)\<close> for single characters \<open>a\<close> and \<open>b\<close>\<close>

definition replace :: "char \<Rightarrow> char \<Rightarrow> string \<Rightarrow> string" where
  "replace a b s = map (\<lambda>c. if c = a then b else c) s"

text \<open>The tokens of the regular expression \<open>\S+\<close>, by which the parser splits a
  \<open>class\<close> attribute into its list of classes.\<close>

fun split_ws :: "string \<Rightarrow> string \<Rightarrow> string list" where
  "split_ws cur [] = (if cur = [] then [] else [cur])"
| "split_ws cur (c # cs) =
     (if is_space c then (if cur = [] then split_ws [] cs else cur # split_ws [] cs)
      else split_ws (cur @ [c]) cs)"

subsection \<open>Formatting and parsing integers\<close>

text \<open>\<open>str(n)\<close>, as an f-string formats an \<open>int\<close>.\<close>

definition digit_char :: "nat \<Rightarrow> char" where
  "digit_char d = ''0123456789'' ! d"

fun str_nat :: "nat \<Rightarrow> string" where
  "str_nat n = (if n < 10 then [digit_char n] else str_nat (n div 10) @ [digit_char (n mod 10)])"

declare str_nat.simps [simp del]

definition str_int :: "int \<Rightarrow> string" where
  "str_int i = (if i < 0 then CHR ''-'' # str_nat (nat (- i)) else str_nat (nat i))"

text \<open>
  \<open>int(s)\<close> on a \<open>str\<close>: white space around the literal is dropped, then an optional
  sign and decimal digits, single underscores allowed between digits. Anything else raises
  \<open>ValueError\<close>, here \<open>None\<close>; so does a literal of more than 4300 digits, the default
  of \<open>sys.int_max_str_digits\<close>.
\<close>

definition is_digit :: "char \<Rightarrow> bool" where
  "is_digit c \<longleftrightarrow> 48 \<le> (of_char c :: nat) \<and> (of_char c :: nat) \<le> 57"

definition digit_val :: "char \<Rightarrow> int" where
  "digit_val c = int (of_char c) - 48"

fun valid_digits :: "string \<Rightarrow> bool" where
  "valid_digits [] = False"
| "valid_digits [c] = is_digit c"
| "valid_digits (c # d # r) =
     (is_digit c \<and> (if d = CHR ''_'' then valid_digits r else valid_digits (d # r)))"

definition int_max_str_digits :: nat where
  "int_max_str_digits = 4300"

definition parse_digits :: "string \<Rightarrow> int option" where
  "parse_digits s =
     (let ds = filter (\<lambda>c. c \<noteq> CHR ''_'') s
      in if valid_digits s \<and> length ds \<le> int_max_str_digits
         then Some (foldl (\<lambda>a c. 10 * a + digit_val c) 0 ds) else None)"

definition py_int :: "string \<Rightarrow> int option" where
  "py_int s =
     (case strip s of
        [] \<Rightarrow> None
      | c # r \<Rightarrow>
          if c = CHR ''-'' then map_option uminus (parse_digits r)
          else if c = CHR ''+'' then parse_digits r
          else parse_digits (c # r))"

section \<open>The parsed document\<close>

text \<open>
  \<open>BeautifulSoup(html, "html.parser")\<close> yields a tree of tags and text. A node of the
  tree is an element, with its name, its attributes (a dictionary, here an association
  list read with \<open>map_of\<close>) and its children, or a piece of text. The parser puts
  the names of elements and attributes in lower case. Comments and the other special
  strings are left out: \<open>get_text\<close>, \<open>select\<close> and \<open>find_next_sibling\<close> pass over
  them.
\<close>

type_synonym attrs = "(string \<times> string) list"

datatype node = Element string attrs "node list" | Text string

text \<open>
  The scraper holds \<open>Tag\<close> objects, which know where they are in the tree: besides the
  element itself a \<open>tag\<close> carries its ancestors (name and attributes, nearest first) and
  the siblings that follow it. The \<open>BeautifulSoup\<close> object is the tag \<open>[document]\<close> above
  the top-level nodes.
\<close>

record tag =
  name :: string
  attrs :: attrs
  contents :: "node list"
  parents :: "(string \<times> attrs) list"
  next_siblings :: "node list"

definition soup_of :: "node list \<Rightarrow> tag" where
  "soup_of ns = \<lparr>name = ''[document]'', attrs = [], contents = ns, parents = [],
     next_siblings = []\<rparr>"

text \<open>The elements below a tag, in document order.\<close>

fun descs :: "(string \<times> attrs) list \<Rightarrow> node list \<Rightarrow> tag list" where
  "descs anc [] = []"
| "descs anc (Text s # ns) = descs anc ns"
| "descs anc (Element n a cs # ns) =
     \<lparr>name = n, attrs = a, contents = cs, parents = anc, next_siblings = ns\<rparr>
       # descs ((n, a) # anc) cs @ descs anc ns"

definition descendants :: "tag \<Rightarrow> tag list" where
  "descendants t = descs ((name t, attrs t) # parents t) (contents t)"

text \<open>\<open>t.has_attr(k)\<close> and \<open>t[k]\<close>, \<open>t.get(k)\<close> in one: \<open>None\<close> when the attribute is
  absent.\<close>

definition get_attr :: "tag \<Rightarrow> string \<Rightarrow> string option" where
  "get_attr t k = map_of (attrs t) k"

text \<open>\<open>t.get("class", [])\<close>: the parser stores \<open>class\<close> as the list of its
  white-space separated values.\<close>

definition get_class :: "tag \<Rightarrow> string list" where
  "get_class t = (case get_attr t ''class'' of None \<Rightarrow> [] | Some v \<Rightarrow> split_ws [] v)"

text \<open>\<open>t.get_text(strip=True)\<close>: every piece of text below the tag is stripped, the empty
  ones are dropped and the rest is joined.\<close>

fun strings :: "node list \<Rightarrow> string list" where
  "strings [] = []"
| "strings (Text s # ns) = s # strings ns"
| "strings (Element n a cs # ns) = strings cs @ strings ns"

definition get_text_strip :: "tag \<Rightarrow> string" where
  "get_text_strip t = concat (filter (\<lambda>s. s \<noteq> []) (map strip (strings (contents t))))"

text \<open>\<open>t.find_next_sibling(n)\<close>: the first element of that name among the siblings after
  the tag.\<close>

fun first_sibling :: "(string \<times> attrs) list \<Rightarrow> string \<Rightarrow> node list \<Rightarrow> tag option" where
  "first_sibling anc n [] = None"
| "first_sibling anc n (Text s # ns) = first_sibling anc n ns"
| "first_sibling anc n (Element m a cs # ns) =
     (if m = n
      then Some \<lparr>name = m, attrs = a, contents = cs, parents = anc, next_siblings = ns\<rparr>
      else first_sibling anc n ns)"

definition find_next_sibling :: "tag \<Rightarrow> string \<Rightarrow> tag option" where
  "find_next_sibling t n = first_sibling (parents t) n (next_siblings t)"

subsection \<open>CSS selectors\<close>

text \<open>
  The selectors of the scraper are compound selectors, an element name with at most one
  attribute test (\<open>[a^='v']\<close>: the value starts with \<open>v\<close>; \<open>[a='v']\<close>: the value is
  \<open>v\<close>), joined by the descendant combinator. A selector is the list of its compounds,
  the one for the element itself last. An element below the tag that \<open>select\<close> is
  called on matches when the compounds before the last match ancestors of it, in order,
  anywhere up to the document.
\<close>

datatype attr_op = Starts_With | Equals

datatype compound = Compound string "(string \<times> attr_op \<times> string) option"

type_synonym selector = "compound list"

fun matches_compound :: "compound \<Rightarrow> string \<times> attrs \<Rightarrow> bool" where
  "matches_compound (Compound n None) (m, a) = (m = n)"
| "matches_compound (Compound n (Some (k, opr, v))) (m, a) =
     (m = n \<and>
      (case map_of a k of
         None \<Rightarrow> False
       | Some x \<Rightarrow> (case opr of Starts_With \<Rightarrow> startswith x v | Equals \<Rightarrow> x = v)))"

text \<open>The compounds left of a descendant combinator, nearest first, against the
  ancestors of an element, nearest first.\<close>

fun matches_ancestors :: "compound list \<Rightarrow> (string \<times> attrs) list \<Rightarrow> bool" where
  "matches_ancestors [] anc = True"
| "matches_ancestors (c # cs) [] = False"
| "matches_ancestors (c # cs) (p # anc) =
     ((matches_compound c p \<and> matches_ancestors cs anc) \<or> matches_ancestors (c # cs) anc)"

definition matches :: "selector \<Rightarrow> tag \<Rightarrow> bool" where
  "matches sel t =
     (case rev sel of
        [] \<Rightarrow> False
      | c # cs \<Rightarrow> matches_compound c (name t, attrs t) \<and> matches_ancestors cs (parents t))"

text \<open>\<open>t.select(sel)\<close>: the matching elements below \<open>t\<close>, in document order;
  \<open>t.select_one(sel)\<close>: the first of them, or \<open>None\<close>.\<close>

definition select :: "tag \<Rightarrow> selector \<Rightarrow> tag list" where
  "select t sel = filter (matches sel) (descendants t)"

definition select_one :: "tag \<Rightarrow> selector \<Rightarrow> tag option" where
  "select_one t sel = (case select t sel of [] \<Rightarrow> None | x # xs \<Rightarrow> Some x)"

section \<open>The scraper (producthunt_scraper.py)\<close>

datatype exn = ValueError string | Exception string | HTTPException int string

text \<open>Python's truth value of an \<open>Optional[int]\<close>, as \<open>all([...])\<close> tests it: \<open>None\<close>
  and \<open>0\<close> are false.\<close>

fun truthy :: "int option \<Rightarrow> bool" where
  "truthy None = False"
| "truthy (Some n) = (n \<noteq> 0)"

text \<open>An \<open>Optional[int]\<close> in an f-string.\<close>

fun fmt :: "int option \<Rightarrow> string" where
  "fmt None = ''None''"
| "fmt (Some n) = str_int n"

text \<open>\<open>x or d\<close> on an \<open>Optional[str]\<close>: \<open>None\<close> and the empty string give \<open>d\<close>.\<close>

fun or_else :: "string option \<Rightarrow> string \<Rightarrow> string" where
  "or_else None d = d"
| "or_else (Some s) d = (if s = [] then d else s)"

subsection \<open>\<open>_build_leaderboard_url\<close>\<close>

definition base_url :: string where
  "base_url = ''https://www.producthunt.com/leaderboard''"

definition build_leaderboard_url ::
  "string \<Rightarrow> int option \<Rightarrow> int option \<Rightarrow> int option \<Rightarrow> int option \<Rightarrow> bool \<Rightarrow> exn + string" where
  "build_leaderboard_url period year month day week featured =
     (let suffix = (if featured then '''' else ''/all'')
      in if period = ''daily'' then
           if \<not> list_all truthy [year, month, day]
           then Inl (ValueError ''Year, month, and day are required for daily leaderboard'')
           else Inr (base_url @ ''/'' @ (''daily/'' @ fmt year @ ''/'' @ fmt month @ ''/'' @ fmt day)
                  @ suffix)
         else if period = ''weekly'' then
           if \<not> list_all truthy [year, week]
           then Inl (ValueError ''Year and week are required for weekly leaderboard'')
           else Inr (base_url @ ''/'' @ (''weekly/'' @ fmt year @ ''/'' @ fmt week) @ suffix)
         else if period = ''monthly'' then
           if \<not> list_all truthy [year, month]
           then Inl (ValueError ''Year and month are required for monthly leaderboard'')
           else Inr (base_url @ ''/'' @ (''monthly/'' @ fmt year @ ''/'' @ fmt month) @ suffix)
         else Inl (ValueError (''Period must be 'daily', 'weekly', or 'monthly'' @ [CHR 0x27])))"

subsection \<open>\<open>_extract_single_product\<close>\<close>

record product =
  index :: int
  logo :: "string option"
  title :: string
  description :: string
  product_url :: string
  votes :: int
  tags :: "string list"
  scraped_at :: string

definition sel_img :: selector where
  "sel_img = [Compound ''img'' None]"

definition sel_post_name :: selector where
  "sel_post_name = [Compound ''div'' (Some (''data-test'', Starts_With, ''post-name-''))]"

definition sel_a :: selector where
  "sel_a = [Compound ''a'' None]"

definition sel_vote :: selector where
  "sel_vote = [Compound ''button'' (Some (''data-test'', Equals, ''vote-button'')),
     Compound ''p'' None]"

definition sel_tags :: selector where
  "sel_tags = [Compound ''div'' (Some (''data-sentry-component'', Equals, ''TagList'')),
     Compound ''a'' None]"

text \<open>
  The argument \<open>now\<close> is the reading of \<open>datetime.now().isoformat()\<close>. A \<open>Tag\<close> is
  always true in Python, so \<open>if not title_div\<close> asks whether a tag was found. No call in
  the body raises on a tree of the parser, so the handler at its end is never entered.
\<close>

definition extract_single_product :: "string \<Rightarrow> tag \<Rightarrow> int \<Rightarrow> product option" where
  "extract_single_product now section idx =
     (let logo_url = (case select_one section sel_img of
                        None \<Rightarrow> None
                      | Some logo_img \<Rightarrow> get_attr logo_img ''src'')
      in case select_one section sel_post_name of
           None \<Rightarrow> None
         | Some title_div \<Rightarrow>
             (case select_one title_div sel_a of
                None \<Rightarrow> None
              | Some title_link \<Rightarrow>
                  (let ttl = get_text_strip title_link;
                       url = (case get_attr title_link ''href'' of
                                None \<Rightarrow> None
                              | Some h \<Rightarrow>
                                  if h \<noteq> [] \<and> startswith h ''/''
                                  then Some (''https://www.producthunt.com'' @ h)
                                  else Some h);
                       desc = (case find_next_sibling title_div ''div'' of
                                 None \<Rightarrow> None
                               | Some next_div \<Rightarrow>
                                   if ''text-secondary'' \<in> set (get_class next_div)
                                      \<or> get_attr next_div ''data-sentry-component''
                                          = Some ''LegacyText''
                                   then Some (get_text_strip next_div) else None);
                       vts = (case select_one section sel_vote of
                                None \<Rightarrow> 0
                              | Some vote_button \<Rightarrow>
                                  (case py_int (get_text_strip vote_button) of
                                     None \<Rightarrow> 0
                                   | Some n \<Rightarrow> n));
                       tgs = map get_text_strip (select section sel_tags)
                   in Some \<lparr>index = idx, logo = logo_url, title = ttl,
                        description = or_else desc (ttl @ '' - Product from ProductHunt''),
                        product_url = or_else url
                          (''https://www.producthunt.com/posts/''
                             @ replace (CHR '' '') (CHR ''-'') (lower ttl)),
                        votes = vts, tags = tgs, scraped_at = now\<rparr>)))"

subsection \<open>\<open>_extract_products_from_html\<close>\<close>

definition sel_item :: selector where
  "sel_item = [Compound ''section'' (Some (''data-test'', Starts_With, ''post-item''))]"

text \<open>
  The loop over \<open>enumerate(product_sections, 1)\<close>. \<open>clock idx\<close> is the reading of the clock
  while the container numbered \<open>idx\<close> is processed. A product is a dictionary with eight
  keys, so \<open>if product\<close> asks whether one was returned.
\<close>

fun extract_loop :: "(int \<Rightarrow> string) \<Rightarrow> int \<Rightarrow> tag list \<Rightarrow> product list \<Rightarrow> product list" where
  "extract_loop clock idx [] products = products"
| "extract_loop clock idx (section # rest) products =
     (case extract_single_product (clock idx) section idx of
        None \<Rightarrow> extract_loop clock (idx + 1) rest products
      | Some p \<Rightarrow> extract_loop clock (idx + 1) rest (products @ [p]))"

definition extract_products_from_html :: "(int \<Rightarrow> string) \<Rightarrow> tag \<Rightarrow> product list" where
  "extract_products_from_html clock soup = extract_loop clock 1 (select soup sel_item) []"

subsection \<open>\<open>scrape_leaderboard\<close> and \<open>scrape_producthunt\<close>\<close>

text \<open>
  What the scraper takes from outside: the Firecrawl call (\<open>Inl msg\<close> when it raises an
  exception with that message, otherwise the \<open>html\<close> of its result, which may be
  missing), the HTML parser, and the clock; \<open>current_year\<close> and \<open>now_iso\<close> are the
  readings of the clock in the handler of the service. The URL is built before the
  \<open>try\<close>; both functions catch an exception only to log it and raise it again.
\<close>

record env =
  firecrawl_scrape :: "string \<Rightarrow> string + string option"
  parse_html :: "string \<Rightarrow> node list"
  clock :: "int \<Rightarrow> string"
  current_year :: int
  now_iso :: string

definition scrape_leaderboard ::
  "env \<Rightarrow> string \<Rightarrow> int option \<Rightarrow> int option \<Rightarrow> int option \<Rightarrow> int option \<Rightarrow> bool
     \<Rightarrow> exn + product list" where
  "scrape_leaderboard e period year month day week featured =
     (case build_leaderboard_url period year month day week featured of
        Inl err \<Rightarrow> Inl err
      | Inr url \<Rightarrow>
          (case firecrawl_scrape e url of
             Inl msg \<Rightarrow> Inl (Exception msg)
           | Inr html_content \<Rightarrow>
               (case html_content of
                  None \<Rightarrow> Inl (Exception ''No HTML content found in Firecrawl response'')
                | Some html \<Rightarrow>
                    if html = []
                    then Inl (Exception ''No HTML content found in Firecrawl response'')
                    else Inr (extract_products_from_html (clock e)
                                (soup_of (parse_html e html))))))"

definition scrape_producthunt ::
  "env \<Rightarrow> string \<Rightarrow> string \<Rightarrow> int option \<Rightarrow> int option \<Rightarrow> int option \<Rightarrow> int option \<Rightarrow> bool
     \<Rightarrow> exn + product list" where
  "scrape_producthunt e api_key period year month day week featured =
     scrape_leaderboard e period year month day week featured"

section \<open>The service (main.py)\<close>

record scrape_request =
  api_key :: string
  period :: string
  year :: int
  month :: "int option"
  day :: "int option"
  week :: "int option"
  featured :: bool

record scrape_response =
  success :: bool
  products :: "product list"
  total_found :: int
  timestamp :: string
  message :: "string option"
  error :: "string option"

text \<open>
  The handler of \<open>POST /scrape\<close>. \<open>Inl\<close> is an exception that leaves the handler, which
  the framework answers with its status code; \<open>Inr\<close> is the response the handler returns.
  The checks raise inside the \<open>try\<close>, and \<open>except HTTPException: raise\<close> lets them
  through; any other exception becomes a response with \<open>success = False\<close>.
\<close>

definition main_scrape_leaderboard :: "env \<Rightarrow> scrape_request \<Rightarrow> exn + scrape_response" where
  "main_scrape_leaderboard e request =
     (if period request = ''daily''
         \<and> \<not> list_all truthy [Some (year request), month request, day request]
      then Inl (HTTPException 400 ''Year, month, and day are required for daily scraping'')
      else if period request = ''weekly''
         \<and> \<not> list_all truthy [Some (year request), week request]
      then Inl (HTTPException 400 ''Year and week are required for weekly scraping'')
      else if period request = ''monthly''
         \<and> \<not> list_all truthy [Some (year request), month request]
      then Inl (HTTPException 400 ''Year and month are required for monthly scraping'')
      else if year request < 2013 \<or> year request > current_year e
      then Inl (HTTPException 400 ''Year must be between 2013 and current year'')
      else if api_key request = [] \<or> \<not> startswith (api_key request) ''fc-''
      then Inl (HTTPException 400
                  ''Valid Firecrawl API key is required (starts with 'fc-')'')
      else
        (case scrape_producthunt e (api_key request) (period request) (Some (year request))
                (month request) (day request) (week request) (featured request) of
           Inr ps \<Rightarrow>
             Inr \<lparr>success = True, products = ps, total_found = int (length ps),
                  timestamp = now_iso e,
                  message = Some (''Successfully scraped '' @ str_int (int (length ps))
                    @ '' products from ProductHunt '' @ period request @ '' leaderboard''),
                  error = None\<rparr>
         | Inl (HTTPException code detail) \<Rightarrow> Inl (HTTPException code detail)
         | Inl (ValueError msg) \<Rightarrow>
             Inr \<lparr>success = False, products = [], total_found = 0, timestamp = now_iso e,
                  message = None, error = Some msg\<rparr>
         | Inl (Exception msg) \<Rightarrow>
             Inr \<lparr>success = False, products = [], total_found = 0, timestamp = now_iso e,
                  message = None, error = Some msg\<rparr>))"

section \<open>Notions of the specification\<close>

text \<open>A request passes validation when none of the checks of the handler rejects it.\<close>

definition passes_validation :: "env \<Rightarrow> scrape_request \<Rightarrow> bool" where
  "passes_validation e request \<longleftrightarrow>
     \<not> (period request = ''daily''
        \<and> \<not> list_all truthy [Some (year request), month request, day request])
     \<and> \<not> (period request = ''weekly''
        \<and> \<not> list_all truthy [Some (year request), week request])
     \<and> \<not> (period request = ''monthly''
        \<and> \<not> list_all truthy [Some (year request), month request])
     \<and> \<not> (year request < 2013 \<or> year request > current_year e)
     \<and> \<not> (api_key request = [] \<or> \<not> startswith (api_key request) ''fc-'')"

text \<open>An item container is well-formed when its post-name marker, the first in the
  container, holds a hyperlink.\<close>

definition well_formed :: "tag \<Rightarrow> bool" where
  "well_formed section =
     (case select_one section sel_post_name of
        None \<Rightarrow> False
      | Some title_div \<Rightarrow> select_one title_div sel_a \<noteq> None)"

text \<open>The hyperlink of a well-formed container.\<close>

definition title_link_of :: "tag \<Rightarrow> tag option" where
  "title_link_of section =
     (case select_one section sel_post_name of
        None \<Rightarrow> None
      | Some title_div \<Rightarrow> select_one title_div sel_a)"

text \<open>The \<open>href\<close> of that hyperlink, when it has one.\<close>

definition href_of :: "tag \<Rightarrow> string option" where
  "href_of section =
     (case title_link_of section of None \<Rightarrow> None | Some title_link \<Rightarrow> get_attr title_link ''href'')"

text \<open>The text of the vote button of a container, when it has one.\<close>

definition vote_text_of :: "tag \<Rightarrow> string option" where
  "vote_text_of section = map_option get_text_strip (select_one section sel_vote)"

section \<open>Example inputs\<close>

text \<open>Item containers as the parser delivers them: two complete ones, the second with a
  vote text that carries a minus sign and an absolute link; one whose post-name marker
  holds no hyperlink; one whose vote text is no integer and whose hyperlink has no
  \<open>href\<close>; and one without a vote button.\<close>

definition acme_item :: node where
  "acme_item =
     Element ''section'' [(''data-test'', ''post-item-101'')]
       [Element ''img'' [(''src'', ''https://ph-files.imgix.net/acme.png'')] [],
        Element ''div'' [(''class'', ''flex flex-col'')]
          [Element ''div'' [(''data-test'', ''post-name-101'')]
             [Element ''a'' [(''href'', ''/posts/acme'')] [Text '' Acme '']],
           Element ''div'' [(''class'', ''text-16 text-secondary'')]
             [Text ''Rockets for everyone'']],
        Element ''div'' [(''data-sentry-component'', ''TagList'')]
          [Element ''a'' [(''href'', ''/topics/space'')] [Text ''Space''],
           Text '' | '',
           Element ''a'' [(''href'', ''/topics/tech'')] [Text ''Tech '']],
        Element ''button'' [(''data-test'', ''vote-button'')]
          [Element ''div'' [] [Element ''p'' [] [Text '' 42 '']]]]"

definition bolt_item :: node where
  "bolt_item =
     Element ''section'' [(''data-test'', ''post-item-102'')]
       [Element ''div'' [(''data-test'', ''post-name-102'')]
          [Element ''a'' [(''href'', ''https://bolt.example/'')] [Text ''Bolt CI'']],
        Element ''button'' [(''data-test'', ''vote-button'')]
          [Element ''p'' [] [Text ''-5'']]]"

definition broken_item :: node where
  "broken_item =
     Element ''section'' [(''data-test'', ''post-item-103'')]
       [Element ''div'' [(''data-test'', ''post-name-103'')] [Text ''Untitled''],
        Element ''button'' [(''data-test'', ''vote-button'')]
          [Element ''p'' [] [Text ''7'']]]"

definition kilo_item :: node where
  "kilo_item =
     Element ''section'' [(''data-test'', ''post-item-104'')]
       [Element ''div'' [(''data-test'', ''post-name-104'')]
          [Element ''a'' [] [Text ''Kilo App'']],
        Element ''button'' [(''data-test'', ''vote-button'')]
          [Element ''p'' [] [Text ''1.2k'']]]"

definition bare_item :: node where
  "bare_item =
     Element ''section'' [(''data-test'', ''post-item-105'')]
       [Element ''div'' [(''data-test'', ''post-name-105'')]
          [Element ''a'' [(''href'', ''/posts/bare'')] [Text ''Bare'']]]"

definition page_full :: "node list" where
  "page_full = [Element ''main'' [] [acme_item, Text '' '', bolt_item]]"

definition page_gap :: "node list" where
  "page_gap = [Element ''main'' [] [acme_item, broken_item, bolt_item]]"

definition example_clock :: "int \<Rightarrow> string" where
  "example_clock i = ''2025-09-28T09:00:00.00000'' @ str_int i"

definition later_clock :: "int \<Rightarrow> string" where
  "later_clock i = ''2025-09-28T17:30:00.00000'' @ str_int i"

definition example_env :: env where
  "example_env =
     \<lparr>firecrawl_scrape = (\<lambda>url. Inr (Some ''<main>...</main>'')),
      parse_html = (\<lambda>html. page_gap),
      clock = example_clock,
      current_year = 2025,
      now_iso = ''2025-09-28T09:00:01''\<rparr>"

definition offline_env :: env where
  "offline_env =
     \<lparr>firecrawl_scrape = (\<lambda>url. Inl ''Connection refused''),
      parse_html = (\<lambda>html. page_gap),
      clock = example_clock,
      current_year = 2025,
      now_iso = ''2025-09-28T09:00:01''\<rparr>"

definition daily_request :: scrape_request where
  "daily_request =
     \<lparr>api_key = ''fc-0123'', period = ''daily'', year = 2025, month = Some 9,
      day = Some 27, week = None, featured = False\<rparr>"

definition hourly_request :: scrape_request where
  "hourly_request =
     \<lparr>api_key = ''fc-0123'', period = ''hourly'', year = 2025, month = Some 9,
      day = Some 27, week = None, featured = False\<rparr>"

section \<open>The URL builder\<close>

text \<open>
  Claim C4, as amended. With year, month and day present and different from zero, the
  daily URL is \<open>https://www.producthunt.com/leaderboard/daily/{year}/{month}/{day}/all\<close>,
  without the \<open>/all\<close> when \<open>featured\<close> is set; the weekly and monthly URLs have the
  shapes \<open>weekly/{year}/{week}\<close> and \<open>monthly/{year}/{month}\<close>. A required component
  that is missing or zero raises \<open>ValueError\<close>: \<open>all([...])\<close> takes \<open>0\<close> for false as it
  does \<open>None\<close>.
\<close>

theorem build_url_shapes:
  "(y \<noteq> 0 \<and> m \<noteq> 0 \<and> d \<noteq> 0 \<longrightarrow>
      build_leaderboard_url ''daily'' (Some y) (Some m) (Some d) wo f
        = Inr (''https://www.producthunt.com/leaderboard/daily/'' @ str_int y @ ''/''
               @ str_int m @ ''/'' @ str_int d @ (if f then [] else ''/all'')))
   \<and> (y \<noteq> 0 \<and> w \<noteq> 0 \<longrightarrow>
      build_leaderboard_url ''weekly'' (Some y) mo dd (Some w) f
        = Inr (''https://www.producthunt.com/leaderboard/weekly/'' @ str_int y @ ''/''
               @ str_int w @ (if f then [] else ''/all'')))
   \<and> (y \<noteq> 0 \<and> m \<noteq> 0 \<longrightarrow>
      build_leaderboard_url ''monthly'' (Some y) (Some m) dd wo f
        = Inr (''https://www.producthunt.com/leaderboard/monthly/'' @ str_int y @ ''/''
               @ str_int m @ (if f then [] else ''/all'')))
   \<and> (yo \<in> {None, Some 0} \<or> mo \<in> {None, Some 0} \<or> dd \<in> {None, Some 0} \<longrightarrow>
      build_leaderboard_url ''daily'' yo mo dd wo f
        = Inl (ValueError ''Year, month, and day are required for daily leaderboard''))
   \<and> (yo \<in> {None, Some 0} \<or> wo \<in> {None, Some 0} \<longrightarrow>
      build_leaderboard_url ''weekly'' yo mo dd wo f
        = Inl (ValueError ''Year and week are required for weekly leaderboard''))
   \<and> (yo \<in> {None, Some 0} \<or> mo \<in> {None, Some 0} \<longrightarrow>
      build_leaderboard_url ''monthly'' yo mo dd wo f
        = Inl (ValueError ''Year and month are required for monthly leaderboard''))"
  by (auto simp add: build_leaderboard_url_def base_url_def)

theorem build_url_shapes_witness:
  "build_leaderboard_url ''daily'' (Some 2025) (Some 9) (Some 27) None False
     = Inr ''https://www.producthunt.com/leaderboard/daily/2025/9/27/all''
   \<and> build_leaderboard_url ''daily'' (Some 2025) (Some 9) (Some 27) None True
     = Inr ''https://www.producthunt.com/leaderboard/daily/2025/9/27''
   \<and> build_leaderboard_url ''weekly'' (Some 2025) (Some 9) None (Some 39) False
     = Inr ''https://www.producthunt.com/leaderboard/weekly/2025/39/all''
   \<and> build_leaderboard_url ''monthly'' (Some 2025) (Some 9) None None False
     = Inr ''https://www.producthunt.com/leaderboard/monthly/2025/9/all''
   \<and> build_leaderboard_url ''daily'' (Some 2025) (Some 9) None None False
     = Inl (ValueError ''Year, month, and day are required for daily leaderboard'')"
proof -
  have s: "str_int 2025 = ''2025''" "str_int 9 = ''9''" "str_int 27 = ''27''"
    "str_int 39 = ''39''"
    by code_simp+
  note a = build_url_shapes [where y = 2025 and m = 9 and d = 27 and wo = None and f = False and w = 39
      and mo = "Some 9" and dd = None and yo = "Some 2025"]
  note b = build_url_shapes [where y = 2025 and m = 9 and d = 27 and wo = None and f = True and w = 39
      and mo = "Some 9" and dd = None and yo = "Some 2025"]
  from a s have
    "build_leaderboard_url ''daily'' (Some 2025) (Some 9) (Some 27) None False
       = Inr ''https://www.producthunt.com/leaderboard/daily/2025/9/27/all''"
    "build_leaderboard_url ''weekly'' (Some 2025) (Some 9) None (Some 39) False
       = Inr ''https://www.producthunt.com/leaderboard/weekly/2025/39/all''"
    "build_leaderboard_url ''monthly'' (Some 2025) (Some 9) None None False
       = Inr ''https://www.producthunt.com/leaderboard/monthly/2025/9/all''"
    "build_leaderboard_url ''daily'' (Some 2025) (Some 9) None None False
       = Inl (ValueError ''Year, month, and day are required for daily leaderboard'')"
    by simp_all
  moreover from b s have
    "build_leaderboard_url ''daily'' (Some 2025) (Some 9) (Some 27) None True
       = Inr ''https://www.producthunt.com/leaderboard/daily/2025/9/27''"
    by simp
  ultimately show ?thesis by simp
qed

text \<open>
  Claim C4 as stated fails: a daily request with year, month and day all present, the
  month being \<open>0\<close>, gets no URL but the \<open>ValueError\<close>.
\<close>

theorem build_url_zero_month_counterexample:
  "build_leaderboard_url ''daily'' (Some 2025) (Some 0) (Some 27) None False
     = Inl (ValueError ''Year, month, and day are required for daily leaderboard'')"
  by (simp add: build_leaderboard_url_def)

section \<open>The extraction loop\<close>

text \<open>The loop appends, for each container in turn, the record of that container if
  there is one; what it has collected is only ever extended.\<close>

lemma extract_loop_eq:
  "extract_loop clk i ss acc =
     acc @ List.map_filter (\<lambda>k. extract_single_product (clk (i + int k)) (ss ! k) (i + int k))
             [0..<length ss]"
proof (induction ss arbitrary: i acc)
  case Nil
  then show ?case by simp
next
  case (Cons s ss)
  have upt: "[0..<length (s # ss)] = 0 # map Suc [0..<length ss]"
    by (simp add: upt_conv_Cons map_Suc_upt del: upt_Suc)
  have shift: "List.map_filter (\<lambda>k. extract_single_product (clk (i + int k)) ((s # ss) ! k) (i + int k))
           (map Suc [0..<length ss])
        = List.map_filter (\<lambda>k. extract_single_product (clk (i + 1 + int k)) (ss ! k) (i + 1 + int k))
           [0..<length ss]"
    by (simp add: List.map_filter_def filter_map comp_def add.assoc add.commute add.left_commute)
  show ?case
    unfolding upt
    by (cases "extract_single_product (clk i) s i") (simp_all add: shift Cons.IH)
qed

lemma extract_products_eq:
  "extract_products_from_html clk soup =
     List.map_filter
       (\<lambda>k. extract_single_product (clk (int k + 1)) (select soup sel_item ! k) (int k + 1))
       [0..<length (select soup sel_item)]"
  by (simp add: extract_products_from_html_def extract_loop_eq add.commute)

lemma extract_single_None_iff:
  "extract_single_product now s i = None \<longleftrightarrow> \<not> well_formed s"
  by (simp add: extract_single_product_def well_formed_def Let_def split: option.splits)

lemma extract_single_index:
  "extract_single_product now s i = Some p \<Longrightarrow> index p = i"
  by (auto simp add: extract_single_product_def Let_def split: option.splits)

lemma map_filter_all_Some:
  "\<forall>x\<in>set xs. f x \<noteq> None \<Longrightarrow> List.map_filter f xs = map (\<lambda>x. the (f x)) xs"
  by (induction xs) (auto simp: List.map_filter_simps)

lemma map_filter_index:
  "(\<And>x y. f x = Some y \<Longrightarrow> g y = h x) \<Longrightarrow>
   map g (List.map_filter f xs) = map h (filter (\<lambda>x. f x \<noteq> None) xs)"
  by (induction xs) (auto simp: List.map_filter_simps split: option.splits)

lemma set_map_filter:
  "set (List.map_filter f xs) = {y. \<exists>x\<in>set xs. f x = Some y}"
  by (induction xs) (auto simp: List.map_filter_simps split: option.splits)

lemma length_map_filter:
  "length (List.map_filter f xs) = length (filter (\<lambda>x. f x \<noteq> None) xs)"
  by (induction xs) (auto simp: List.map_filter_simps split: option.splits)

lemma filter_upt_nth:
  "length (filter (\<lambda>k. P (xs ! k)) [0..<length xs]) = length (filter P xs)"
proof -
  have "map (\<lambda>k. xs ! k) (filter (\<lambda>k. P (xs ! k)) [0..<length xs]) = filter P (map (\<lambda>k. xs ! k) [0..<length xs])"
    by (simp add: filter_map comp_def)
  also have "map (\<lambda>k. xs ! k) [0..<length xs] = xs"
    by (simp add: map_nth)
  finally show ?thesis
    by (metis length_map)
qed

lemma map_map_filter:
  "map g (List.map_filter f xs) = List.map_filter (\<lambda>x. map_option g (f x)) xs"
  by (induction xs) (auto simp: List.map_filter_simps split: option.splits)

lemma extract_single_clock:
  "map_option (\<lambda>p. p\<lparr>scraped_at := c\<rparr>) (extract_single_product now s i)
     = map_option (\<lambda>p. p\<lparr>scraped_at := c\<rparr>) (extract_single_product now' s i)"
  by (simp add: extract_single_product_def Let_def split: option.splits)

text \<open>
  Claim C1. When every item container located in the document is well-formed, the
  extractor returns as many records as there are containers, the \<open>k\<close>-th record is the
  one extracted from the \<open>k\<close>-th container in document order, and its \<open>index\<close> is
  \<open>k\<close>, counting from 1.
\<close>

theorem extract_all_well_formed:
  assumes "list_all well_formed (select soup sel_item)"
  shows "length (extract_products_from_html clk soup) = length (select soup sel_item) \<and>
         (\<forall>k<length (select soup sel_item).
            extract_single_product (clk (int k + 1)) (select soup sel_item ! k) (int k + 1)
              = Some (extract_products_from_html clk soup ! k)
            \<and> index (extract_products_from_html clk soup ! k) = int k + 1)"
proof -
  let ?secs = "select soup sel_item"
  let ?f = "\<lambda>k. extract_single_product (clk (int k + 1)) (?secs ! k) (int k + 1)"
  have some': "?f k \<noteq> None" if "k < length ?secs" for k
    using assms that by (simp add: extract_single_None_iff list_all_length)
  then have some: "\<forall>k\<in>set [0..<length ?secs]. ?f k \<noteq> None"
    by simp
  have out: "extract_products_from_html clk soup = map (\<lambda>k. the (?f k)) [0..<length ?secs]"
    unfolding extract_products_eq by (rule map_filter_all_Some [OF some])
  have len: "length (extract_products_from_html clk soup) = length ?secs"
    by (simp add: out)
  have each: "?f k = Some (extract_products_from_html clk soup ! k)
      \<and> index (extract_products_from_html clk soup ! k) = int k + 1" if "k < length ?secs" for k
  proof -
    from some' [OF that] obtain p where p: "?f k = Some p" by blast
    with that have "extract_products_from_html clk soup ! k = p" by (simp add: out)
    with p show ?thesis by (simp add: extract_single_index)
  qed
  from len each show ?thesis by blast
qed

theorem extract_all_well_formed_witness:
  "list_all well_formed (select (soup_of page_full) sel_item)
   \<and> length (extract_products_from_html example_clock (soup_of page_full)) = 2
   \<and> index (extract_products_from_html example_clock (soup_of page_full) ! 0) = 1
   \<and> index (extract_products_from_html example_clock (soup_of page_full) ! 1) = 2"
proof -
  have h: "list_all well_formed (select (soup_of page_full) sel_item)"
    by code_simp
  have n: "length (select (soup_of page_full) sel_item) = 2"
    by code_simp
  note t = extract_all_well_formed [OF h, of example_clock]
  from t n have len: "length (extract_products_from_html example_clock (soup_of page_full)) = 2"
    by simp
  have k0: "index (extract_products_from_html example_clock (soup_of page_full) ! 0) = 1"
    using t [THEN conjunct2, rule_format, of 0] n by simp
  have k1: "index (extract_products_from_html example_clock (soup_of page_full) ! 1) = 2"
    using t [THEN conjunct2, rule_format, of 1] n by simp
  from h len k0 k1 show ?thesis by simp
qed

text \<open>
  Claim C2. A container whose post-name marker or the hyperlink in it is absent yields no
  record, and no returned record carries its position; every well-formed container of the
  same document yields its record, so the output has one record per well-formed
  container. A scrape whose fetch delivered markup answers with \<open>success = True\<close> and
  these records, whatever containers were dropped.
\<close>

theorem extract_isolates_malformed:
  "length (extract_products_from_html clk soup) = length (filter well_formed (select soup sel_item))
   \<and> (\<forall>k<length (select soup sel_item).
        if well_formed (select soup sel_item ! k)
        then \<exists>p\<in>set (extract_products_from_html clk soup).
               index p = int k + 1
               \<and> extract_single_product (clk (int k + 1)) (select soup sel_item ! k) (int k + 1)
                   = Some p
        else extract_single_product (clk (int k + 1)) (select soup sel_item ! k) (int k + 1) = None
             \<and> (\<forall>p\<in>set (extract_products_from_html clk soup). index p \<noteq> int k + 1))
   \<and> (passes_validation e r
        \<and> build_leaderboard_url (period r) (Some (year r)) (month r) (day r) (week r) (featured r)
            = Inr url
        \<and> firecrawl_scrape e url = Inr (Some html) \<and> html \<noteq> []
      \<longrightarrow> (\<exists>resp. main_scrape_leaderboard e r = Inr resp \<and> success resp
             \<and> products resp = extract_products_from_html (clock e) (soup_of (parse_html e html))))"
proof -
  let ?secs = "select soup sel_item"
  let ?out = "extract_products_from_html clk soup"
  let ?f = "\<lambda>k. extract_single_product (clk (int k + 1)) (?secs ! k) (int k + 1)"
  have len: "length ?out = length (filter well_formed ?secs)"
    unfolding extract_products_eq length_map_filter
    by (simp add: extract_single_None_iff filter_upt_nth)
  have good: "\<exists>p\<in>set ?out. index p = int k + 1 \<and> ?f k = Some p"
    if "k < length ?secs" "well_formed (?secs ! k)" for k
  proof -
    from that(2) obtain p where p: "?f k = Some p"
      using extract_single_None_iff [of "clk (int k + 1)" "?secs ! k" "int k + 1"] by auto
    with that(1) have "p \<in> set ?out"
      unfolding extract_products_eq set_map_filter by auto
    with p show ?thesis using extract_single_index by blast
  qed
  have bad: "?f k = None \<and> (\<forall>p\<in>set ?out. index p \<noteq> int k + 1)"
    if "k < length ?secs" "\<not> well_formed (?secs ! k)" for k
  proof -
    from that(2) have none: "?f k = None"
      by (simp add: extract_single_None_iff)
    have "index p \<noteq> int k + 1" if "p \<in> set ?out" for p
    proof
      assume eq: "index p = int k + 1"
      from that obtain j where j: "?f j = Some p"
        unfolding extract_products_eq set_map_filter by auto
      then have "index p = int j + 1" by (rule extract_single_index)
      with eq have "j = k" by simp
      with j none show False by simp
    qed
    with none show ?thesis by blast
  qed
  have run: "\<exists>resp. main_scrape_leaderboard e r = Inr resp \<and> success resp
             \<and> products resp = extract_products_from_html (clock e) (soup_of (parse_html e html))"
    if "passes_validation e r"
      "build_leaderboard_url (period r) (Some (year r)) (month r) (day r) (week r) (featured r)
         = Inr url"
      "firecrawl_scrape e url = Inr (Some html)" "html \<noteq> []"
    using that
    by (simp add: main_scrape_leaderboard_def passes_validation_def scrape_producthunt_def
        scrape_leaderboard_def)
  from len good bad run show ?thesis by auto
qed

theorem extract_isolates_malformed_witness:
  "length (extract_products_from_html example_clock (soup_of page_gap)) = 2
   \<and> length (select (soup_of page_gap) sel_item) = 3
   \<and> \<not> well_formed (select (soup_of page_gap) sel_item ! 1)
   \<and> (\<exists>resp. main_scrape_leaderboard example_env daily_request = Inr resp \<and> success resp
         \<and> length (products resp) = 2)"
proof -
  note t = extract_isolates_malformed [of example_clock "soup_of page_gap" example_env daily_request
      "''https://www.producthunt.com/leaderboard/daily/2025/9/27/all''" "''<main>...</main>''"]
  have f: "length (filter well_formed (select (soup_of page_gap) sel_item)) = 2"
    by code_simp
  have n: "length (select (soup_of page_gap) sel_item) = 3"
    by code_simp
  have w: "\<not> well_formed (select (soup_of page_gap) sel_item ! 1)"
    by code_simp
  have pre: "passes_validation example_env daily_request
        \<and> build_leaderboard_url (period daily_request) (Some (year daily_request))
            (month daily_request) (day daily_request) (week daily_request)
            (featured daily_request)
            = Inr ''https://www.producthunt.com/leaderboard/daily/2025/9/27/all''
        \<and> firecrawl_scrape example_env
            ''https://www.producthunt.com/leaderboard/daily/2025/9/27/all''
            = Inr (Some ''<main>...</main>'') \<and> ''<main>...</main>'' \<noteq> []"
    by code_simp
  have env: "clock example_env = example_clock"
    "parse_html example_env ''<main>...</main>'' = page_gap"
    by (simp_all add: example_env_def)
  from t f have len: "length (extract_products_from_html example_clock (soup_of page_gap)) = 2"
    by simp
  from t pre obtain resp where "main_scrape_leaderboard example_env daily_request = Inr resp"
    "success resp"
    "products resp = extract_products_from_html (clock example_env)
       (soup_of (parse_html example_env ''<main>...</main>''))"
    by blast
  with len env have "\<exists>resp. main_scrape_leaderboard example_env daily_request = Inr resp
     \<and> success resp \<and> length (products resp) = 2"
    by simp
  with len n w show ?thesis by simp
qed

text \<open>
  Claim C10. The \<open>index\<close> of a returned record is the 1-based position of its container
  among all located containers: the indices of the output are the positions of the
  well-formed containers, in increasing order, so a dropped container leaves a gap and
  nothing is renumbered.
\<close>

theorem index_is_document_position:
  "map index (extract_products_from_html clk soup)
     = map (\<lambda>k. int k + 1)
         (filter (\<lambda>k. well_formed (select soup sel_item ! k)) [0..<length (select soup sel_item)])
   \<and> sorted_wrt (<) (map index (extract_products_from_html clk soup))
   \<and> (\<forall>p\<in>set (extract_products_from_html clk soup).
        \<exists>k<length (select soup sel_item).
          index p = int k + 1
          \<and> extract_single_product (clk (int k + 1)) (select soup sel_item ! k) (int k + 1) = Some p)"
proof -
  let ?secs = "select soup sel_item"
  let ?f = "\<lambda>k. extract_single_product (clk (int k + 1)) (?secs ! k) (int k + 1)"
  have idx: "map index (extract_products_from_html clk soup)
     = map (\<lambda>k. int k + 1) (filter (\<lambda>k. well_formed (?secs ! k)) [0..<length ?secs])"
    unfolding extract_products_eq
    by (subst map_filter_index [where h = "\<lambda>k. int k + 1"])
       (simp_all add: extract_single_index extract_single_None_iff)
  have "sorted_wrt (<) (filter (\<lambda>k. well_formed (?secs ! k)) [0..<length ?secs])"
    by (rule sorted_wrt_filter) (rule sorted_wrt_upt)
  then have srt: "sorted_wrt (<) (map index (extract_products_from_html clk soup))"
    unfolding idx sorted_wrt_map by (rule sorted_wrt_mono_rel [rotated]) simp
  have mem: "\<exists>k<length ?secs. index p = int k + 1 \<and> ?f k = Some p"
    if "p \<in> set (extract_products_from_html clk soup)" for p
  proof -
    from that obtain k where k: "k < length ?secs" "?f k = Some p"
      unfolding extract_products_eq set_map_filter by auto
    then show ?thesis using extract_single_index by blast
  qed
  from idx srt mem show ?thesis by blast
qed

theorem index_is_document_position_witness:
  "map index (extract_products_from_html example_clock (soup_of page_gap)) = [1, 3]"
proof -
  have "map (\<lambda>k. int k + 1)
         (filter (\<lambda>k. well_formed (select (soup_of page_gap) sel_item ! k))
            [0..<length (select (soup_of page_gap) sel_item)]) = [1, 3]"
    by code_simp
  with index_is_document_position [of example_clock "soup_of page_gap"] show ?thesis by simp
qed

text \<open>
  Claim C9. Two runs of the extractor on the same document, at whatever times, return the
  same records once \<open>scraped_at\<close> is blanked: the clock reaches no other field.
\<close>

theorem extract_same_but_clock:
  "map (\<lambda>p. p\<lparr>scraped_at := []\<rparr>) (extract_products_from_html clk1 soup)
     = map (\<lambda>p. p\<lparr>scraped_at := []\<rparr>) (extract_products_from_html clk2 soup)"
proof -
  let ?secs = "select soup sel_item"
  have "(\<lambda>k. map_option (\<lambda>p. p\<lparr>scraped_at := []\<rparr>)
               (extract_single_product (clk1 (int k + 1)) (?secs ! k) (int k + 1)))
      = (\<lambda>k. map_option (\<lambda>p. p\<lparr>scraped_at := []\<rparr>)
               (extract_single_product (clk2 (int k + 1)) (?secs ! k) (int k + 1)))"
    by (rule ext) (rule extract_single_clock)
  then show ?thesis
    unfolding extract_products_eq map_map_filter by simp
qed

theorem extract_same_but_clock_witness:
  "map (\<lambda>p. p\<lparr>scraped_at := []\<rparr>) (extract_products_from_html example_clock (soup_of page_gap))
     = map (\<lambda>p. p\<lparr>scraped_at := []\<rparr>) (extract_products_from_html later_clock (soup_of page_gap))
   \<and> length (extract_products_from_html example_clock (soup_of page_gap)) = 2
   \<and> extract_products_from_html example_clock (soup_of page_gap)
       \<noteq> extract_products_from_html later_clock (soup_of page_gap)"
proof -
  have n: "length (extract_products_from_html example_clock (soup_of page_gap)) = 2"
    by code_simp
  have d: "map scraped_at (extract_products_from_html example_clock (soup_of page_gap))
      \<noteq> map scraped_at (extract_products_from_html later_clock (soup_of page_gap))"
    by code_simp
  then have "extract_products_from_html example_clock (soup_of page_gap)
       \<noteq> extract_products_from_html later_clock (soup_of page_gap)"
    by auto
  with n extract_same_but_clock [of example_clock "soup_of page_gap" later_clock] show ?thesis
    by simp
qed

section \<open>The fields of a record\<close>

text \<open>An integer literal without a sign denotes a number that is not negative.\<close>

lemma valid_digits_all:
  "valid_digits s \<Longrightarrow> \<forall>c\<in>set (filter (\<lambda>c. c \<noteq> CHR ''_'') s). is_digit c"
  by (induction s rule: valid_digits.induct) (auto split: if_splits)

lemma foldl_digits_nonneg:
  "0 \<le> a \<Longrightarrow> \<forall>c\<in>set ds. is_digit c \<Longrightarrow> 0 \<le> foldl (\<lambda>a c. 10 * a + digit_val c) a ds"
proof (induction ds arbitrary: a)
  case Nil
  then show ?case by simp
next
  case (Cons d ds)
  from Cons.prems have "0 \<le> 10 * a + digit_val d"
    by (simp add: is_digit_def digit_val_def)
  with Cons show ?case by simp
qed

lemma parse_digits_nonneg: "parse_digits s = Some n \<Longrightarrow> 0 \<le> n"
  using foldl_digits_nonneg [of 0 "filter (\<lambda>c. c \<noteq> CHR ''_'') s"] valid_digits_all [of s]
  by (auto simp add: parse_digits_def Let_def split: if_splits)

lemma py_int_nonneg:
  "py_int t = Some n \<Longrightarrow> \<not> startswith (strip t) ''-'' \<Longrightarrow> 0 \<le> n"
  by (auto simp add: py_int_def startswith_def split: list.splits if_splits
      dest: parse_digits_nonneg)

lemma extract_single_votes:
  "extract_single_product now s i = Some p \<Longrightarrow>
   votes p = (case vote_text_of s of
                None \<Rightarrow> 0
              | Some t \<Rightarrow> (case py_int t of None \<Rightarrow> 0 | Some n \<Rightarrow> n))"
  by (auto simp add: extract_single_product_def vote_text_of_def Let_def split: option.splits)

text \<open>
  Claim C7, as amended. The \<open>votes\<close> of an extracted record are \<open>0\<close> when the container
  has no vote button text or when that text is not an integer literal, and the integer
  read from the text otherwise; they are non-negative unless the text starts with a minus
  sign.
\<close>

theorem votes_default_and_sign:
  assumes "extract_single_product now s i = Some p"
  shows "(vote_text_of s = None \<longrightarrow> votes p = 0)
       \<and> (\<forall>t. vote_text_of s = Some t \<longrightarrow>
             (py_int t = None \<longrightarrow> votes p = 0)
           \<and> (\<forall>n. py_int t = Some n \<longrightarrow> votes p = n)
           \<and> (\<not> startswith (strip t) ''-'' \<longrightarrow> 0 \<le> votes p))"
proof -
  note v = extract_single_votes [OF assms]
  have "0 \<le> votes p" if "vote_text_of s = Some t" "\<not> startswith (strip t) ''-''" for t
  proof (cases "py_int t")
    case None
    with v that show ?thesis by simp
  next
    case (Some n)
    from Some that(2) have "0 \<le> n" by (rule py_int_nonneg)
    with v that Some show ?thesis by simp
  qed
  with v show ?thesis by auto
qed

theorem votes_default_and_sign_witness:
  "vote_text_of (hd (select (soup_of [acme_item]) sel_item)) = Some ''42''
   \<and> map_option votes (extract_single_product ''2025-09-28T09:00:00''
        (hd (select (soup_of [acme_item]) sel_item)) 1) = Some 42
   \<and> vote_text_of (hd (select (soup_of [kilo_item]) sel_item)) = Some ''1.2k''
   \<and> py_int ''1.2k'' = None
   \<and> map_option votes (extract_single_product ''2025-09-28T09:00:00''
        (hd (select (soup_of [kilo_item]) sel_item)) 1) = Some 0
   \<and> vote_text_of (hd (select (soup_of [bare_item]) sel_item)) = None
   \<and> map_option votes (extract_single_product ''2025-09-28T09:00:00''
        (hd (select (soup_of [bare_item]) sel_item)) 1) = Some 0"
proof -
  let ?a = "hd (select (soup_of [acme_item]) sel_item)"
  let ?k = "hd (select (soup_of [kilo_item]) sel_item)"
  let ?b = "hd (select (soup_of [bare_item]) sel_item)"
  let ?now = "''2025-09-28T09:00:00''"
  have ta: "vote_text_of ?a = Some ''42''" and ia: "py_int ''42'' = Some 42"
    and tk: "vote_text_of ?k = Some ''1.2k''" and ik: "py_int ''1.2k'' = None"
    and tb: "vote_text_of ?b = None"
    by code_simp+
  have "extract_single_product ?now ?a 1 \<noteq> None" "extract_single_product ?now ?k 1 \<noteq> None"
    "extract_single_product ?now ?b 1 \<noteq> None"
    by code_simp+
  then obtain pa pk pb where p: "extract_single_product ?now ?a 1 = Some pa"
    "extract_single_product ?now ?k 1 = Some pk" "extract_single_product ?now ?b 1 = Some pb"
    by blast
  from votes_default_and_sign [OF p(1)] ta ia have "votes pa = 42" by simp
  moreover from votes_default_and_sign [OF p(2)] tk ik have "votes pk = 0" by simp
  moreover from votes_default_and_sign [OF p(3)] tb have "votes pb = 0" by simp
  ultimately show ?thesis using p ta tk ik tb by simp
qed

text \<open>
  Claim C7 as stated fails: a vote text \<open>-5\<close> is an integer literal, and the record gets
  \<open>votes = -5\<close>.
\<close>

theorem votes_negative_counterexample:
  "map votes (extract_products_from_html example_clock (soup_of [bolt_item])) = [- 5]"
  by code_simp

text \<open>
  Claim C8. When the \<open>href\<close> of the title link starts with \<open>/\<close>, the \<open>product_url\<close> of
  the record is \<open>https://www.producthunt.com\<close> followed by that \<open>href\<close>; so \<open>/posts/acme\<close>
  becomes \<open>https://www.producthunt.com/posts/acme\<close>.
\<close>

theorem relative_href_made_absolute:
  assumes "extract_single_product now s i = Some p"
    and "href_of s = Some h" and "startswith h ''/''"
  shows "product_url p = ''https://www.producthunt.com'' @ h"
  using assms
  by (auto simp add: extract_single_product_def href_of_def title_link_of_def Let_def
      startswith_def split: option.splits)

theorem relative_href_made_absolute_witness:
  "href_of (hd (select (soup_of [acme_item]) sel_item)) = Some ''/posts/acme''
   \<and> map_option product_url (extract_single_product ''2025-09-28T09:00:00''
        (hd (select (soup_of [acme_item]) sel_item)) 1)
       = Some ''https://www.producthunt.com/posts/acme''"
proof -
  let ?s = "hd (select (soup_of [acme_item]) sel_item)"
  have h: "href_of ?s = Some ''/posts/acme''"
    by code_simp
  have "extract_single_product ''2025-09-28T09:00:00'' ?s 1 \<noteq> None"
    by code_simp
  then obtain p where p: "extract_single_product ''2025-09-28T09:00:00'' ?s 1 = Some p"
    by blast
  have "startswith ''/posts/acme'' ''/''"
    by code_simp
  from relative_href_made_absolute [OF p h this] have "product_url p = ''https://www.producthunt.com/posts/acme''"
    by simp
  with p h show ?thesis by simp
qed

section \<open>The handler\<close>

text \<open>A request that passes the checks is handed to the scraper; any other is answered
  with status 400.\<close>

lemma main_valid:
  "passes_validation e r \<Longrightarrow>
   main_scrape_leaderboard e r =
     (case scrape_leaderboard e (period r) (Some (year r)) (month r) (day r) (week r) (featured r) of
        Inr ps \<Rightarrow>
          Inr \<lparr>success = True, products = ps, total_found = int (length ps),
               timestamp = now_iso e,
               message = Some (''Successfully scraped '' @ str_int (int (length ps))
                 @ '' products from ProductHunt '' @ period r @ '' leaderboard''),
               error = None\<rparr>
      | Inl (HTTPException code detail) \<Rightarrow> Inl (HTTPException code detail)
      | Inl (ValueError msg) \<Rightarrow>
          Inr \<lparr>success = False, products = [], total_found = 0, timestamp = now_iso e,
               message = None, error = Some msg\<rparr>
      | Inl (Exception msg) \<Rightarrow>
          Inr \<lparr>success = False, products = [], total_found = 0, timestamp = now_iso e,
               message = None, error = Some msg\<rparr>)"
proof -
  assume v: "passes_validation e r"
  have c1: "\<not> (period r = ''daily''
        \<and> \<not> list_all truthy [Some (year r), month r, day r])"
    and c2: "\<not> (period r = ''weekly'' \<and> \<not> list_all truthy [Some (year r), week r])"
    and c3: "\<not> (period r = ''monthly'' \<and> \<not> list_all truthy [Some (year r), month r])"
    and c4: "\<not> (year r < 2013 \<or> year r > current_year e)"
    and c5: "\<not> (api_key r = [] \<or> \<not> startswith (api_key r) ''fc-'')"
    using v unfolding passes_validation_def by blast+
  show ?thesis
    unfolding main_scrape_leaderboard_def scrape_producthunt_def
    by (simp only: c1 c2 c3 c4 c5 if_False)
qed

lemma main_invalid:
  "\<not> passes_validation e r \<Longrightarrow> \<exists>detail. main_scrape_leaderboard e r = Inl (HTTPException 400 detail)"
  by (auto simp add: main_scrape_leaderboard_def passes_validation_def)

text \<open>
  Claim C3 asks for a client error when the period is none of \<open>daily\<close>, \<open>weekly\<close>,
  \<open>monthly\<close>. The handler has no check for that: such a request, its year and key being
  acceptable, passes the checks, the URL builder raises \<open>ValueError\<close> before any fetch,
  and the handler returns a response with \<open>success = False\<close>.
\<close>

theorem unknown_period_answered_as_failure:
  assumes "passes_validation e r"
    and "period r \<noteq> ''daily''" and "period r \<noteq> ''weekly''" and "period r \<noteq> ''monthly''"
  shows "main_scrape_leaderboard e r =
     Inr \<lparr>success = False, products = [], total_found = 0, timestamp = now_iso e,
          message = None,
          error = Some (''Period must be 'daily', 'weekly', or 'monthly'' @ [CHR 0x27])\<rparr>"
  using assms(2-4)
  by (simp add: main_valid [OF assms(1)] scrape_leaderboard_def build_leaderboard_url_def)

theorem unknown_period_answered_as_failure_witness:
  "passes_validation example_env hourly_request
   \<and> period hourly_request = ''hourly''
   \<and> main_scrape_leaderboard example_env hourly_request =
     Inr \<lparr>success = False, products = [], total_found = 0, timestamp = ''2025-09-28T09:00:01'',
          message = None,
          error = Some (''Period must be 'daily', 'weekly', or 'monthly'' @ [CHR 0x27])\<rparr>"
proof -
  have v: "passes_validation example_env hourly_request"
    by code_simp
  have p: "period hourly_request = ''hourly''"
    by (simp add: hourly_request_def)
  have n: "now_iso example_env = ''2025-09-28T09:00:01''"
    by (simp add: example_env_def)
  from unknown_period_answered_as_failure [OF v] p n v show ?thesis by simp
qed

text \<open>
  Claim C5. For a request that passes the checks and builds its URL, when the fetch of
  that URL raises, or delivers no markup or empty markup, the handler returns a response
  with \<open>success = False\<close>, no products and an error message; no exception leaves it.
\<close>

theorem fetch_failure_is_response:
  assumes "passes_validation e r"
    and "build_leaderboard_url (period r) (Some (year r)) (month r) (day r) (week r) (featured r)
           = Inr url"
    and "(\<exists>msg. firecrawl_scrape e url = Inl msg) \<or> firecrawl_scrape e url = Inr None
           \<or> firecrawl_scrape e url = Inr (Some [])"
  shows "\<exists>msg. main_scrape_leaderboard e r =
     Inr \<lparr>success = False, products = [], total_found = 0, timestamp = now_iso e,
          message = None, error = Some msg\<rparr>"
  using assms(2,3)
  by (auto simp add: main_valid [OF assms(1)] scrape_leaderboard_def)

theorem fetch_failure_is_response_witness:
  "passes_validation offline_env daily_request
   \<and> firecrawl_scrape offline_env ''https://www.producthunt.com/leaderboard/daily/2025/9/27/all''
       = Inl ''Connection refused''
   \<and> (\<exists>msg. main_scrape_leaderboard offline_env daily_request =
     Inr \<lparr>success = False, products = [], total_found = 0, timestamp = now_iso offline_env,
          message = None, error = Some msg\<rparr>)"
proof -
  have v: "passes_validation offline_env daily_request"
    by code_simp
  have u: "build_leaderboard_url (period daily_request) (Some (year daily_request))
            (month daily_request) (day daily_request) (week daily_request)
            (featured daily_request)
            = Inr ''https://www.producthunt.com/leaderboard/daily/2025/9/27/all''"
    by code_simp
  have f: "firecrawl_scrape offline_env
      ''https://www.producthunt.com/leaderboard/daily/2025/9/27/all'' = Inl ''Connection refused''"
    by (simp add: offline_env_def)
  from f have "(\<exists>msg. firecrawl_scrape offline_env
      ''https://www.producthunt.com/leaderboard/daily/2025/9/27/all'' = Inl msg)
      \<or> firecrawl_scrape offline_env
      ''https://www.producthunt.com/leaderboard/daily/2025/9/27/all'' = Inr None
      \<or> firecrawl_scrape offline_env
      ''https://www.producthunt.com/leaderboard/daily/2025/9/27/all'' = Inr (Some [])"
    by blast
  from fetch_failure_is_response [OF v u this] v f show ?thesis by blast
qed

text \<open>
  Claim C6. In every response the handler returns, \<open>total_found\<close> is the number of
  \<open>products\<close>.
\<close>

theorem total_found_is_length:
  assumes "main_scrape_leaderboard e r = Inr resp"
  shows "total_found resp = int (length (products resp))"
proof (cases "passes_validation e r")
  case True
  from assms show ?thesis
    unfolding main_valid [OF True]
    by (auto split: sum.splits exn.splits)
next
  case False
  from main_invalid [OF False] assms show ?thesis by auto
qed

theorem total_found_is_length_witness:
  "(\<exists>resp. main_scrape_leaderboard example_env daily_request = Inr resp
      \<and> success resp \<and> total_found resp = 2 \<and> length (products resp) = 2)
   \<and> (\<exists>resp. main_scrape_leaderboard offline_env daily_request = Inr resp
      \<and> \<not> success resp \<and> total_found resp = 0 \<and> length (products resp) = 0)"
proof -
  have a: "map_sum id (\<lambda>resp. (success resp, length (products resp)))
      (main_scrape_leaderboard example_env daily_request) = Inr (True, 2)"
    by code_simp
  have b: "map_sum id (\<lambda>resp. (success resp, length (products resp)))
      (main_scrape_leaderboard offline_env daily_request) = Inr (False, 0)"
    by code_simp
  from a obtain ra where ra: "main_scrape_leaderboard example_env daily_request = Inr ra"
    "success ra" "length (products ra) = 2"
    by (cases "main_scrape_leaderboard example_env daily_request") auto
  from b obtain rb where rb: "main_scrape_leaderboard offline_env daily_request = Inr rb"
    "\<not> success rb" "length (products rb) = 0"
    by (cases "main_scrape_leaderboard offline_env daily_request") auto
  from total_found_is_length [OF ra(1)] ra have "total_found ra = 2" by simp
  moreover from total_found_is_length [OF rb(1)] rb have "total_found rb = 0" by simp
  ultimately show ?thesis using ra rb by auto
qed

end
